theory Spec2Isabelle
  imports Complex_Main "HOL-Library.AList"
begin

section \<open>pydataform: a shallow embedding\<close>

text \<open>
  The embedding follows \<^verbatim>\<open>pydataform/dataform.py\<close> (DataformConfig, DataformWorkflow,
  DataformService) and \<^verbatim>\<open>examples/advanced_workflow.py\<close> (WorkflowManager).

  Conventions.
  \<^item> A Python exception is a value of type \<open>error\<close>; a method that can raise returns
    \<open>(error + 'a) \<times> world\<close>: the world changes also when the call raises.
  \<^item> The Dataform API client is an external collaborator. It is a parameter of the
    model, a \<open>client\<close>: what the remote answers to the n-th remote call of a run, and how
    long that call takes.
  \<^item> \<^verbatim>\<open>time.time()\<close> reads the field \<open>clock\<close> of the world. Python floats are
    idealised as real numbers.
  \<^item> Every DataformWorkflow object lives at an address of an object store (\<open>objs\<close>),
    since the manager's registry and the worker share the objects they refresh.
  \<^item> The effects a claim can observe are recorded in \<open>trace\<close>, in the order they happen:
    remote calls, sleeps, the registry lock, the writes of the registry, the callbacks.
    Logging is left out.
\<close>

subsection \<open>Data model\<close>

datatype error =
    RemoteUnavailable
  | RemoteRejected
  | NotFound
  | TimeoutError
  | ValueError

text \<open>
  Modelled from the spec: the enumeration \<^verbatim>\<open>WorkflowInvocation.State\<close> belongs to the
  client library, which is not part of the sources; the spec's data model lists its
  values as PENDING, RUNNING, SUCCEEDED, FAILED, CANCELLED.
\<close>

datatype State = PENDING | RUNNING | SUCCEEDED | FAILED | CANCELLED

record Timestamp =
  seconds :: int
  nanos :: int

text \<open>
  A snapshot is a message of the client library. Its timing and the two timestamps of
  the timing are message fields that the remote may leave unset: \<open>None\<close> is an unset
  field.
\<close>

record Interval =
  iv_start_time :: "Timestamp option"
  iv_end_time :: "Timestamp option"

record WorkflowInvocation =
  wi_name :: string
  wi_compilation_result :: string
  wi_state :: State
  wi_invocation_timing :: "Interval option"

record DataformConfig =
  project_id :: string
  location :: string
  repo_name :: string
  git_branch :: string

datatype request =
    CreateCompilationResultRequest string string "(string \<times> string) list" "string option"
  | CreateWorkflowInvocationRequest string string bool bool bool
  | GetWorkflowInvocation string

text \<open>
  The remote side. \<open>compile_reply c n r\<close> is what \<^verbatim>\<open>create_compilation_result\<close> returns (or
  raises) when it is the n-th remote call of the run and carries the request \<open>r\<close>; likewise
  for the two other calls. \<open>latency c n\<close> is the time the n-th call takes.
\<close>

record client =
  compile_reply :: "nat \<Rightarrow> request \<Rightarrow> error + string"
  invoke_reply :: "nat \<Rightarrow> request \<Rightarrow> error + WorkflowInvocation"
  get_reply :: "nat \<Rightarrow> request \<Rightarrow> error + WorkflowInvocation"
  latency :: "nat \<Rightarrow> real"

datatype event =
    Call request
  | Sleep real
  | Acquire
  | Release
  | Store string nat
  | Evict string
  | OnStart string nat
  | OnComplete string nat
  | OnError string "nat option" error

record world =
  clock :: real
  calls :: nat
  trace :: "event list"
  objs :: "nat \<Rightarrow> WorkflowInvocation"
  nobjs :: nat

definition emit :: "event \<Rightarrow> world \<Rightarrow> world" where
  "emit e w = w\<lparr>trace := trace w @ [e]\<rparr>"

text \<open>One remote call: it is recorded, takes its latency, and answers or raises.\<close>

definition called :: "client \<Rightarrow> request \<Rightarrow> world \<Rightarrow> world" where
  "called c r w =
     w\<lparr>clock := clock w + latency c (calls w),
       calls := Suc (calls w),
       trace := trace w @ [Call r]\<rparr>"

definition remote_call ::
  "(nat \<Rightarrow> request \<Rightarrow> error + 'a) \<Rightarrow> client \<Rightarrow> request \<Rightarrow> world \<Rightarrow> (error + 'a) \<times> world" where
  "remote_call reply c r w = (reply (calls w) r, called c r w)"

text \<open>\<^verbatim>\<open>time.sleep(d)\<close> raises ValueError on a negative length.\<close>

definition sleep :: "real \<Rightarrow> world \<Rightarrow> (error + unit) \<times> world" where
  "sleep d w =
     (if d < 0 then (Inl ValueError, w)
      else (Inr (), w\<lparr>clock := clock w + d, trace := trace w @ [Sleep d]\<rparr>))"

subsection \<open>DataformConfig\<close>

definition repo_uri :: "DataformConfig \<Rightarrow> string" where
  "repo_uri cfg =
     ''projects/'' @ project_id cfg @ ''/locations/'' @ location cfg
       @ ''/repositories/'' @ repo_name cfg"

subsection \<open>DataformWorkflow\<close>

text \<open>
  A DataformWorkflow is the address \<open>h\<close> of its \<^verbatim>\<open>_workflow_invocation\<close> in \<open>objs\<close>; its
  \<^verbatim>\<open>_client\<close> is the client \<open>c\<close>. Every property and method takes the world and returns
  it, so that what a method does to the world is a statement about the model.
\<close>

definition new_workflow :: "WorkflowInvocation \<Rightarrow> world \<Rightarrow> nat \<times> world" where
  "new_workflow wi w =
     (nobjs w, w\<lparr>objs := (objs w)(nobjs w := wi), nobjs := Suc (nobjs w)\<rparr>)"

definition name :: "nat \<Rightarrow> world \<Rightarrow> string" where
  "name h w = wi_name (objs w h)"

definition refresh :: "client \<Rightarrow> nat \<Rightarrow> world \<Rightarrow> (error + nat) \<times> world" where
  "refresh c h w =
     (case remote_call (get_reply c) c (GetWorkflowInvocation (name h w)) w of
        (Inl e, w') \<Rightarrow> (Inl e, w')
      | (Inr wi, w') \<Rightarrow> (Inr h, w'\<lparr>objs := (objs w')(h := wi)\<rparr>))"

record timedict =
  td_seconds :: int
  td_nanos :: int

text \<open>
  What Python sees of a message of the client library. Reading a message field that is
  unset yields the default message (a timing without timestamps, a timestamp of 0
  seconds and 0 nanoseconds); \<^verbatim>\<open>hasattr\<close> holds for every declared field, and a message
  object is truthy. So the guard \<^verbatim>\<open>not hasattr(x, f) or not x.f\<close> of \<^verbatim>\<open>start_time\<close> and
  \<^verbatim>\<open>end_time\<close> is false for every snapshot the client returns.
\<close>

definition read_invocation_timing :: "WorkflowInvocation \<Rightarrow> Interval" where
  "read_invocation_timing wi =
     (case wi_invocation_timing wi of
        None \<Rightarrow> \<lparr>iv_start_time = None, iv_end_time = None\<rparr>
      | Some timing \<Rightarrow> timing)"

definition read_timestamp :: "Timestamp option \<Rightarrow> Timestamp" where
  "read_timestamp field = (case field of None \<Rightarrow> \<lparr>seconds = 0, nanos = 0\<rparr> | Some t \<Rightarrow> t)"

definition missing_or_falsy :: "'a \<Rightarrow> bool" where
  "missing_or_falsy message = False"

definition start_time :: "client \<Rightarrow> nat \<Rightarrow> world \<Rightarrow> timedict option \<times> world" where
  "start_time c h w =
     (if missing_or_falsy (read_invocation_timing (objs w h)) then (None, w)
      else if missing_or_falsy
                (read_timestamp (iv_start_time (read_invocation_timing (objs w h))))
      then (None, w)
      else
        (case read_timestamp (iv_start_time (read_invocation_timing (objs w h))) of
           start \<Rightarrow> (Some \<lparr>td_seconds = seconds start, td_nanos = nanos start\<rparr>, w)))"

definition end_time :: "client \<Rightarrow> nat \<Rightarrow> world \<Rightarrow> timedict option \<times> world" where
  "end_time c h w =
     (if missing_or_falsy (read_invocation_timing (objs w h)) then (None, w)
      else if missing_or_falsy
                (read_timestamp (iv_end_time (read_invocation_timing (objs w h))))
      then (None, w)
      else
        (case read_timestamp (iv_end_time (read_invocation_timing (objs w h))) of
           en \<Rightarrow> (Some \<lparr>td_seconds = seconds en, td_nanos = nanos en\<rparr>, w)))"

text \<open>
  \<^verbatim>\<open>if not start or not end: return None\<close>: a dict with its two keys is truthy, so only
  \<open>None\<close> is not.
\<close>

definition duration_seconds :: "client \<Rightarrow> nat \<Rightarrow> world \<Rightarrow> real option \<times> world" where
  "duration_seconds c h w =
     (case start_time c h w of
        (start, w1) \<Rightarrow>
          (case end_time c h w1 of
             (en, w2) \<Rightarrow>
               (case (start, en) of
                  (Some s, Some e) \<Rightarrow>
                    (Some (real_of_int (td_seconds e - td_seconds s)
                           + real_of_int (td_nanos e - td_nanos s) / 1000000000), w2)
                | _ \<Rightarrow> (None, w2))))"

definition terminal_states :: "State list" where
  "terminal_states = [SUCCEEDED, CANCELLED, FAILED]"

definition is_complete :: "client \<Rightarrow> nat \<Rightarrow> world \<Rightarrow> (error + bool) \<times> world" where
  "is_complete c h w =
     (case refresh c h w of
        (Inl e, w') \<Rightarrow> (Inl e, w')
      | (Inr _, w') \<Rightarrow> (Inr (wi_state (objs w' h) \<in> set terminal_states), w'))"

definition is_successful :: "client \<Rightarrow> nat \<Rightarrow> world \<Rightarrow> (error + bool) \<times> world" where
  "is_successful c h w =
     (case refresh c h w of
        (Inl e, w') \<Rightarrow> (Inl e, w')
      | (Inr _, w') \<Rightarrow> (Inr (wi_state (objs w' h) = SUCCEEDED), w'))"

definition is_failed :: "client \<Rightarrow> nat \<Rightarrow> world \<Rightarrow> (error + bool) \<times> world" where
  "is_failed c h w =
     (case refresh c h w of
        (Inl e, w') \<Rightarrow> (Inl e, w')
      | (Inr _, w') \<Rightarrow> (Inr (wi_state (objs w' h) = FAILED), w'))"

definition is_cancelled :: "client \<Rightarrow> nat \<Rightarrow> world \<Rightarrow> (error + bool) \<times> world" where
  "is_cancelled c h w =
     (case refresh c h w of
        (Inl e, w') \<Rightarrow> (Inl e, w')
      | (Inr _, w') \<Rightarrow> (Inr (wi_state (objs w' h) = CANCELLED), w'))"

definition is_running :: "client \<Rightarrow> nat \<Rightarrow> world \<Rightarrow> (error + bool) \<times> world" where
  "is_running c h w =
     (case refresh c h w of
        (Inl e, w') \<Rightarrow> (Inl e, w')
      | (Inr _, w') \<Rightarrow> (Inr (wi_state (objs w' h) = RUNNING), w'))"

text \<open>
  The loop of \<^verbatim>\<open>wait_for_completion\<close>. It need not end (a poll interval of 0 against
  a remote that answers in no time), so it is a partial function: \<open>None\<close> is a loop that
  runs forever.
\<close>

partial_function (option) wait_loop ::
  "client \<Rightarrow> nat \<Rightarrow> real \<Rightarrow> real \<Rightarrow> real \<Rightarrow> world \<Rightarrow> ((error + nat) \<times> world) option" where
  "wait_loop c h poll_interval_seconds timeout_seconds start w =
     (if clock w - start < timeout_seconds then
        (case refresh c h w of
           (Inl e, w1) \<Rightarrow> Some (Inl e, w1)
         | (Inr _, w1) \<Rightarrow>
             (case is_complete c h w1 of
                (Inl e, w2) \<Rightarrow> Some (Inl e, w2)
              | (Inr terminal, w2) \<Rightarrow>
                  if terminal then Some (Inr h, w2)
                  else
                    (case sleep poll_interval_seconds w2 of
                       (Inl e, w3) \<Rightarrow> Some (Inl e, w3)
                     | (Inr _, w3) \<Rightarrow>
                         wait_loop c h poll_interval_seconds timeout_seconds start w3)))
      else Some (Inl TimeoutError, w))"

definition wait_for_completion ::
  "client \<Rightarrow> nat \<Rightarrow> real \<Rightarrow> real \<Rightarrow> world \<Rightarrow> ((error + nat) \<times> world) option" where
  "wait_for_completion c h poll_interval_seconds timeout_seconds w =
     wait_loop c h poll_interval_seconds timeout_seconds (clock w) w"

subsection \<open>DataformService\<close>

record DataformService =
  config :: DataformConfig
  latest_workflow :: "nat option"

text \<open>
  \<^verbatim>\<open>params\<close> and \<^verbatim>\<open>schema_suffix\<close> are set on the request only when they are truthy:
  an empty dict leaves the variables empty, an empty string leaves the suffix unset.
\<close>

definition compilation_request ::
  "DataformService \<Rightarrow> (string \<times> string) list option \<Rightarrow> string option \<Rightarrow> request" where
  "compilation_request svc params schema_suffix =
     CreateCompilationResultRequest (repo_uri (config svc)) (git_branch (config svc))
       (case params of None \<Rightarrow> [] | Some p \<Rightarrow> p)
       (case schema_suffix of None \<Rightarrow> None | Some s \<Rightarrow> if s = [] then None else Some s)"

definition compile ::
  "client \<Rightarrow> DataformService \<Rightarrow> (string \<times> string) list option \<Rightarrow> string option \<Rightarrow> world
    \<Rightarrow> (error + string) \<times> world" where
  "compile c svc params schema_suffix w =
     remote_call (compile_reply c) c (compilation_request svc params schema_suffix) w"

definition invocation_request ::
  "DataformService \<Rightarrow> string \<Rightarrow> bool \<Rightarrow> bool \<Rightarrow> bool \<Rightarrow> request" where
  "invocation_request svc compilation_name full_refresh include_dependencies include_dependents =
     CreateWorkflowInvocationRequest (repo_uri (config svc)) compilation_name
       full_refresh include_dependencies include_dependents"

definition invoke_workflow ::
  "client \<Rightarrow> DataformService \<Rightarrow> string \<Rightarrow> bool \<Rightarrow> bool \<Rightarrow> bool \<Rightarrow> world
    \<Rightarrow> (error + WorkflowInvocation) \<times> world" where
  "invoke_workflow c svc compilation_name full_refresh include_dependencies include_dependents w =
     remote_call (invoke_reply c) c
       (invocation_request svc compilation_name full_refresh
          include_dependencies include_dependents)
       w"

definition create_workflow ::
  "client \<Rightarrow> DataformService \<Rightarrow> string \<Rightarrow> bool \<Rightarrow> bool \<Rightarrow> bool \<Rightarrow> world
    \<Rightarrow> (error + nat) \<times> DataformService \<times> world" where
  "create_workflow c svc compilation_name full_refresh include_dependencies include_dependents w =
     (case invoke_workflow c svc compilation_name full_refresh
             include_dependencies include_dependents w of
        (Inl e, w1) \<Rightarrow> (Inl e, svc, w1)
      | (Inr workflow_invocation, w1) \<Rightarrow>
          (case new_workflow workflow_invocation w1 of
             (workflow, w2) \<Rightarrow> (Inr workflow, svc\<lparr>latest_workflow := Some workflow\<rparr>, w2)))"

text \<open>The \<^verbatim>\<open>params\<close> dict of \<^verbatim>\<open>run_workflow\<close>.\<close>

definition execution_params :: "string option \<Rightarrow> (string \<times> string) list" where
  "execution_params execution_id =
     (case execution_id of
        None \<Rightarrow> []
      | Some e \<Rightarrow> if e = [] then [] else [(''defaultExecutionId'', e)])"

definition run_workflow ::
  "client \<Rightarrow> DataformService \<Rightarrow> string option \<Rightarrow> bool \<Rightarrow> real \<Rightarrow> bool \<Rightarrow> world
    \<Rightarrow> ((error + nat) \<times> DataformService \<times> world) option" where
  "run_workflow c svc execution_id wait timeout_seconds full_refresh w =
     (case compile c svc (Some (execution_params execution_id)) None w of
        (Inl e, w1) \<Rightarrow> Some (Inl e, svc, w1)
      | (Inr compilation_name, w1) \<Rightarrow>
          (case create_workflow c svc compilation_name full_refresh True True w1 of
             (Inl e, svc1, w2) \<Rightarrow> Some (Inl e, svc1, w2)
           | (Inr workflow, svc1, w2) \<Rightarrow>
               if wait then
                 (case wait_for_completion c workflow 30 timeout_seconds w2 of
                    None \<Rightarrow> None
                  | Some (Inl e, w3) \<Rightarrow> Some (Inl e, svc1, w3)
                  | Some (Inr _, w3) \<Rightarrow> Some (Inr workflow, svc1, w3))
               else Some (Inr workflow, svc1, w2)))"

subsection \<open>WorkflowManager\<close>

text \<open>
  A callback is opaque: when called it returns or raises, and the call is recorded in the
  trace with the execution id it was registered under and its arguments.
\<close>

datatype callback = Returns | Raises error

record callbacks =
  on_start :: "callback option"
  on_complete :: "callback option"
  on_error :: "callback option"

text \<open>
  The two dicts of the manager are association lists in insertion order, with the
  updates of a Python dict: \<open>AList.update\<close> replaces in place or appends,
  \<open>AList.delete\<close> removes a key.
\<close>

record WorkflowManager =
  service :: DataformService
  max_retries :: int
  retry_delay_seconds :: real
  max_concurrent_workflows :: int
  active_workflows :: "(string \<times> nat) list"
  workflow_callbacks :: "(string \<times> callbacks) list"
  self_id :: nat

definition call_back :: "callback \<Rightarrow> event \<Rightarrow> world \<Rightarrow> (error + unit) \<times> world" where
  "call_back cb ev w =
     (case cb of
        Returns \<Rightarrow> (Inr (), emit ev w)
      | Raises e \<Rightarrow> (Inl e, emit ev w))"

text \<open>
  \<^verbatim>\<open>callbacks = self.workflow_callbacks.get(execution_id, [])\<close> followed by
  \<^verbatim>\<open>if callbacks and callbacks[i]: callbacks[i](...)\<close>.
\<close>

definition notify ::
  "WorkflowManager \<Rightarrow> string \<Rightarrow> (callbacks \<Rightarrow> callback option) \<Rightarrow> event \<Rightarrow> world
    \<Rightarrow> (error + unit) \<times> world" where
  "notify m execution_id slot ev w =
     (case map_of (workflow_callbacks m) execution_id of
        None \<Rightarrow> (Inr (), w)
      | Some cbs \<Rightarrow>
          (case slot cbs of
             None \<Rightarrow> (Inr (), w)
           | Some cb \<Rightarrow> call_back cb ev w))"

text \<open>
  The body of the \<^verbatim>\<open>for\<close> loop of \<^verbatim>\<open>_monitor_workflows\<close> for one entry, with its
  \<^verbatim>\<open>try/except\<close>: whatever is raised is caught.
\<close>

definition monitor_entry ::
  "client \<Rightarrow> WorkflowManager \<Rightarrow> string list \<times> world \<Rightarrow> string \<times> nat \<Rightarrow> string list \<times> world" where
  "monitor_entry c m st entry =
     (case st of (completed, w) \<Rightarrow>
      case entry of (execution_id, workflow) \<Rightarrow>
        (case refresh c workflow w of
           (Inl e, w1) \<Rightarrow> (completed, w1)
         | (Inr _, w1) \<Rightarrow>
             (case is_complete c workflow w1 of
                (Inl e, w2) \<Rightarrow> (completed, w2)
              | (Inr terminal, w2) \<Rightarrow>
                  if terminal then
                    (completed @ [execution_id],
                     snd (notify m execution_id on_complete
                            (OnComplete execution_id workflow) w2))
                  else (completed, w2))))"

definition remove_completed :: "WorkflowManager \<Rightarrow> string list \<Rightarrow> WorkflowManager" where
  "remove_completed m completed =
     foldl (\<lambda>m execution_id.
              m\<lparr>active_workflows := AList.delete execution_id (active_workflows m),
                workflow_callbacks := AList.delete execution_id (workflow_callbacks m)\<rparr>)
       m completed"

text \<open>
  One pass of the poller: the \<^verbatim>\<open>with self.lock\<close> block of \<^verbatim>\<open>_monitor_workflows\<close>. The
  removal of a completed id from the two dicts is recorded as \<open>Evict\<close>.
\<close>

definition monitor_pass :: "client \<Rightarrow> WorkflowManager \<Rightarrow> world \<Rightarrow> WorkflowManager \<times> world" where
  "monitor_pass c m w =
     (case foldl (monitor_entry c m) ([], emit Acquire w) (active_workflows m) of
        (completed, w1) \<Rightarrow>
          (remove_completed m completed,
           emit Release (foldl (\<lambda>w execution_id. emit (Evict execution_id) w) w1 completed)))"

text \<open>
  \<^verbatim>\<open>_monitor_workflows\<close> is \<^verbatim>\<open>while True\<close>: it never returns. One round of it is a pass
  followed by \<^verbatim>\<open>time.sleep(5)\<close>.
\<close>

definition monitor_workflows_round ::
  "client \<Rightarrow> WorkflowManager \<Rightarrow> world \<Rightarrow> WorkflowManager \<times> world" where
  "monitor_workflows_round c m w =
     (case monitor_pass c m w of (m1, w1) \<Rightarrow> (m1, snd (sleep 5 w1)))"

text \<open>
  The \<^verbatim>\<open>try\<close> block of \<^verbatim>\<open>_run_workflow_with_retry\<close> (one attempt). Besides the outcome
  it returns the handle, when the attempt got as far as assigning \<^verbatim>\<open>workflow\<close>. The
  write of the registry inside \<^verbatim>\<open>with self.lock\<close> is recorded as \<open>Store\<close>.
\<close>

definition try_block ::
  "client \<Rightarrow> WorkflowManager \<Rightarrow> string \<Rightarrow> bool \<Rightarrow> real \<Rightarrow> bool \<Rightarrow> world
    \<Rightarrow> ((error + unit) \<times> nat option \<times> WorkflowManager \<times> world) option" where
  "try_block c m execution_id wait timeout_seconds full_refresh w =
     (case run_workflow c (service m) (Some execution_id) False timeout_seconds full_refresh w of
        None \<Rightarrow> None
      | Some (Inl e, svc1, w1) \<Rightarrow> Some (Inl e, None, m\<lparr>service := svc1\<rparr>, w1)
      | Some (Inr workflow, svc1, w1) \<Rightarrow>
          (let m1 = m\<lparr>service := svc1,
                      active_workflows := AList.update execution_id workflow (active_workflows m)\<rparr>;
               w2 = emit Release (emit (Store execution_id workflow) (emit Acquire w1))
           in case notify m1 execution_id on_start (OnStart execution_id workflow) w2 of
                (Inl e, w3) \<Rightarrow> Some (Inl e, Some workflow, m1, w3)
              | (Inr _, w3) \<Rightarrow>
                  if wait then
                    (case wait_for_completion c workflow 30 timeout_seconds w3 of
                       None \<Rightarrow> None
                     | Some (Inl e, w4) \<Rightarrow> Some (Inl e, Some workflow, m1, w4)
                     | Some (Inr _, w4) \<Rightarrow> Some (Inr (), Some workflow, m1, w4))
                  else Some (Inr (), Some workflow, m1, w3)))"

text \<open>
  The \<^verbatim>\<open>while retries <= self.max_retries\<close> loop. An exception raised inside the
  \<^verbatim>\<open>except\<close> block (by the callback, or by a sleep of negative length) leaves the
  method; otherwise the method returns nothing.
\<close>

partial_function (option) retry_loop ::
  "client \<Rightarrow> string \<Rightarrow> bool \<Rightarrow> real \<Rightarrow> bool \<Rightarrow> int \<Rightarrow> nat option \<Rightarrow> WorkflowManager \<Rightarrow> world
    \<Rightarrow> ((error + unit) \<times> WorkflowManager \<times> world) option" where
  "retry_loop c execution_id wait timeout_seconds full_refresh retries workflow m w =
     (if retries \<le> max_retries m then
        (case try_block c m execution_id wait timeout_seconds full_refresh w of
           None \<Rightarrow> None
         | Some (Inr _, assigned, m1, w1) \<Rightarrow> Some (Inr (), m1, w1)
         | Some (Inl e, assigned, m1, w1) \<Rightarrow>
             (let workflow1 = (case assigned of None \<Rightarrow> workflow | Some h \<Rightarrow> Some h);
                  retries1 = retries + 1
              in case notify m1 execution_id on_error
                        (OnError execution_id workflow1 e) w1 of
                   (Inl e', w2) \<Rightarrow> Some (Inl e', m1, w2)
                 | (Inr _, w2) \<Rightarrow>
                     if retries1 \<le> max_retries m1 then
                       (case sleep (retry_delay_seconds m1) w2 of
                          (Inl e', w3) \<Rightarrow> Some (Inl e', m1, w3)
                        | (Inr _, w3) \<Rightarrow>
                            retry_loop c execution_id wait timeout_seconds full_refresh
                              retries1 workflow1 m1 w3)
                     else
                       retry_loop c execution_id wait timeout_seconds full_refresh
                         retries1 workflow1 m1 w2))
      else Some (Inr (), m, w))"

definition run_workflow_with_retry ::
  "client \<Rightarrow> WorkflowManager \<Rightarrow> string \<Rightarrow> bool \<Rightarrow> real \<Rightarrow> bool \<Rightarrow> world
    \<Rightarrow> ((error + unit) \<times> WorkflowManager \<times> world) option" where
  "run_workflow_with_retry c m execution_id wait timeout_seconds full_refresh w =
     retry_loop c execution_id wait timeout_seconds full_refresh 0 None m w"

text \<open>Decimal digits of an integer, as \<^verbatim>\<open>str\<close> prints them.\<close>

fun str_nat :: "nat \<Rightarrow> string" where
  "str_nat n =
     (if n < 10 then [''0123456789'' ! n]
      else str_nat (n div 10) @ [''0123456789'' ! (n mod 10)])"

definition str_int :: "int \<Rightarrow> string" where
  "str_int i = (if i < 0 then ''-'' @ str_nat (nat (- i)) else str_nat (nat i))"

text \<open>\<^verbatim>\<open>int(x)\<close> on a float truncates towards zero.\<close>

definition int_of_float :: "real \<Rightarrow> int" where
  "int_of_float x = (if 0 \<le> x then \<lfloor>x\<rfloor> else \<lceil>x\<rceil>)"

text \<open>
  \<^verbatim>\<open>WorkflowManager.run_workflow\<close>: it stores the callbacks, hands the task to the pool
  and returns the execution id. The task it hands over is
  \<open>run_workflow_with_retry\<close> with that id, which a worker runs later.
\<close>

definition manager_run_workflow ::
  "WorkflowManager \<Rightarrow> string option \<Rightarrow> callback option \<Rightarrow> callback option \<Rightarrow> callback option
    \<Rightarrow> world \<Rightarrow> string \<times> WorkflowManager" where
  "manager_run_workflow m execution_id on_start_cb on_complete_cb on_error_cb w =
     (let generated = ''workflow-'' @ str_int (int_of_float (clock w)) @ ''-'' @ str_nat (self_id m);
          eid = (case execution_id of
                   None \<Rightarrow> generated
                 | Some e \<Rightarrow> if e = [] then generated else e)
      in (eid,
          m\<lparr>workflow_callbacks :=
              AList.update eid
                \<lparr>on_start = on_start_cb, on_complete = on_complete_cb, on_error = on_error_cb\<rparr>
                (workflow_callbacks m)\<rparr>))"

subsection \<open>Concrete inputs\<close>

definition running_snapshot :: WorkflowInvocation where
  "running_snapshot =
     \<lparr>wi_name = ''inv-1'', wi_compilation_result = ''cr-1'', wi_state = RUNNING,
      wi_invocation_timing =
        Some \<lparr>iv_start_time = Some \<lparr>seconds = 10, nanos = 500000000\<rparr>, iv_end_time = None\<rparr>\<rparr>"

definition succeeded_snapshot :: WorkflowInvocation where
  "succeeded_snapshot =
     \<lparr>wi_name = ''inv-1'', wi_compilation_result = ''cr-1'', wi_state = SUCCEEDED,
      wi_invocation_timing =
        Some \<lparr>iv_start_time = Some \<lparr>seconds = 10, nanos = 500000000\<rparr>,
              iv_end_time = Some \<lparr>seconds = 13, nanos = 0\<rparr>\<rparr>\<rparr>"

text \<open>A remote that answers at once, and every get and every invoke with the same snapshot.\<close>

definition steady_client :: "WorkflowInvocation \<Rightarrow> client" where
  "steady_client wi =
     \<lparr>compile_reply = (\<lambda>n r. Inr ''cr-1''),
      invoke_reply = (\<lambda>n r. Inr wi),
      get_reply = (\<lambda>n r. Inr wi),
      latency = (\<lambda>n. 0)\<rparr>"

text \<open>A remote that refuses every compilation.\<close>

definition failing_client :: client where
  "failing_client =
     \<lparr>compile_reply = (\<lambda>n r. Inl RemoteUnavailable),
      invoke_reply = (\<lambda>n r. Inr running_snapshot),
      get_reply = (\<lambda>n r. Inr running_snapshot),
      latency = (\<lambda>n. 0)\<rparr>"

text \<open>A world at time 0 with one DataformWorkflow, at address 0, holding the given snapshot.\<close>

definition world_with :: "WorkflowInvocation \<Rightarrow> world" where
  "world_with wi = \<lparr>clock = 0, calls = 0, trace = [], objs = (\<lambda>a. wi), nobjs = 1\<rparr>"

definition test_config :: DataformConfig where
  "test_config =
     \<lparr>project_id = ''test-project'', location = ''us-central1'',
      repo_name = ''test-repo'', git_branch = ''test''\<rparr>"

definition test_manager :: WorkflowManager where
  "test_manager =
     \<lparr>service = \<lparr>config = test_config, latest_workflow = None\<rparr>,
      max_retries = 2, retry_delay_seconds = 1, max_concurrent_workflows = 2,
      active_workflows = [], workflow_callbacks = [], self_id = 7\<rparr>"

text \<open>The start and end timestamps of a snapshot, \<open>None\<close> when absent.\<close>

abbreviation snapshot_start :: "WorkflowInvocation \<Rightarrow> Timestamp option" where
  "snapshot_start wi \<equiv> Option.bind (wi_invocation_timing wi) iv_start_time"

abbreviation snapshot_end :: "WorkflowInvocation \<Rightarrow> Timestamp option" where
  "snapshot_end wi \<equiv> Option.bind (wi_invocation_timing wi) iv_end_time"

text \<open>
  The world after one round of the loop of \<open>wait_for_completion\<close> that found the
  workflow still running: two remote calls (the refresh, and the refresh of
  \<open>is_complete\<close>), which fetched \<open>s1\<close> and then \<open>s2\<close>, and the sleep.
\<close>

definition after_poll :: "client \<Rightarrow> nat \<Rightarrow> real \<Rightarrow> WorkflowInvocation \<Rightarrow> WorkflowInvocation \<Rightarrow> world \<Rightarrow> world" where
  "after_poll c h poll s1 s2 w =
     w\<lparr>clock := clock w + latency c (calls w) + latency c (Suc (calls w)) + poll,
       calls := Suc (Suc (calls w)),
       trace := trace w @ [Call (GetWorkflowInvocation (name h w)),
                           Call (GetWorkflowInvocation (wi_name s1)), Sleep poll],
       objs := (objs w)(h := s2)\<rparr>"

text \<open>What a run of \<open>wait_for_completion\<close> shows: its result, the final time, the trace.\<close>

definition outcome :: "((error + nat) \<times> world) option \<Rightarrow> ((error + nat) \<times> real \<times> event list) option" where
  "outcome res = map_option (\<lambda>(r, w). (r, clock w, trace w)) res"

text \<open>
  What a run of the retry loop shows: its result, the registry with the state of each
  registered handle, and the trace.
\<close>

definition registry_states :: "WorkflowManager \<Rightarrow> world \<Rightarrow> (string \<times> nat \<times> State) list" where
  "registry_states m w = map (\<lambda>(i, h). (i, h, wi_state (objs w h))) (active_workflows m)"

definition retry_outcome ::
  "((error + unit) \<times> WorkflowManager \<times> world) option
    \<Rightarrow> ((error + unit) \<times> (string \<times> nat \<times> State) list \<times> event list) option" where
  "retry_outcome res = map_option (\<lambda>(r, m, w). (r, registry_states m w, trace w)) res"

text \<open>The manager after \<open>run_workflow\<close> registered three callbacks that return normally.\<close>

definition started_manager :: WorkflowManager where
  "started_manager =
     snd (manager_run_workflow test_manager (Some ''example-workflow-1'')
            (Some Returns) (Some Returns) (Some Returns) (world_with running_snapshot))"

text \<open>Classifying the events of a trace.\<close>

fun remote_or_sleep :: "event \<Rightarrow> bool" where
  "remote_or_sleep (Call r) = True"
| "remote_or_sleep (Sleep d) = True"
| "remote_or_sleep e = False"

fun is_on_start :: "event \<Rightarrow> bool" where
  "is_on_start (OnStart i h) = True"
| "is_on_start e = False"

fun is_on_complete :: "event \<Rightarrow> bool" where
  "is_on_complete (OnComplete i h) = True"
| "is_on_complete e = False"

fun is_on_error :: "event \<Rightarrow> bool" where
  "is_on_error (OnError i h e) = True"
| "is_on_error e = False"

fun lock_event :: "event \<Rightarrow> bool" where
  "lock_event Acquire = True"
| "lock_event Release = True"
| "lock_event e = False"

text \<open>
  The registry lock along a trace: \<open>held_after b es\<close> tells whether the lock is held
  after the events \<open>es\<close>, when it was held (\<open>b\<close>) or not before them;
  \<open>calls_unlocked b es\<close> tells that no remote call among \<open>es\<close> happens while it is held.
\<close>

fun held_after :: "bool \<Rightarrow> event list \<Rightarrow> bool" where
  "held_after b [] = b"
| "held_after b (Acquire # es) = held_after True es"
| "held_after b (Release # es) = held_after False es"
| "held_after b (e # es) = held_after b es"

fun calls_unlocked :: "bool \<Rightarrow> event list \<Rightarrow> bool" where
  "calls_unlocked b [] = True"
| "calls_unlocked b (Acquire # es) = calls_unlocked True es"
| "calls_unlocked b (Release # es) = calls_unlocked False es"
| "calls_unlocked b (Call r # es) = (\<not> b \<and> calls_unlocked b es)"
| "calls_unlocked b (e # es) = calls_unlocked b es"

text \<open>
  The rounds of \<open>wait_for_completion\<close>, for the statements about it. Round \<open>j\<close> of a
  wait that began in the world \<open>w\<close> starts at \<open>round_start c poll w j\<close>, when the
  \<open>j\<close> rounds before it each made two remote calls and slept; \<open>polls nm poll n\<close> is the
  trace of \<open>n\<close> such rounds; \<open>first_reply\<close> and \<open>second_reply\<close> are the answers of the
  remote to the two refreshes of round \<open>j\<close>, and \<open>still_running\<close> tells that both came
  and the second one carried no terminal state.
\<close>

definition round_start :: "client \<Rightarrow> real \<Rightarrow> world \<Rightarrow> nat \<Rightarrow> real" where
  "round_start c poll w j = clock w + real j * poll + (\<Sum>i<2 * j. latency c (calls w + i))"

definition polls :: "string \<Rightarrow> real \<Rightarrow> nat \<Rightarrow> event list" where
  "polls nm poll n =
     concat (replicate n
       [Call (GetWorkflowInvocation nm), Call (GetWorkflowInvocation nm), Sleep poll])"

definition first_reply :: "client \<Rightarrow> world \<Rightarrow> string \<Rightarrow> nat \<Rightarrow> error + WorkflowInvocation" where
  "first_reply c w nm j = get_reply c (calls w + 2 * j) (GetWorkflowInvocation nm)"

definition second_reply :: "client \<Rightarrow> world \<Rightarrow> string \<Rightarrow> nat \<Rightarrow> error + WorkflowInvocation" where
  "second_reply c w nm j = get_reply c (calls w + 2 * j + 1) (GetWorkflowInvocation nm)"

definition still_running :: "client \<Rightarrow> world \<Rightarrow> string \<Rightarrow> nat \<Rightarrow> bool" where
  "still_running c w nm j =
     (case first_reply c w nm j of
        Inl e \<Rightarrow> False
      | Inr s1 \<Rightarrow>
          (case second_reply c w nm j of
             Inl e \<Rightarrow> False
           | Inr s2 \<Rightarrow> wi_state s2 \<notin> set terminal_states))"

text \<open>A remote whose invocation is RUNNING up to its \<open>k\<close>-th answer and SUCCEEDED after.\<close>

definition finishing_client :: "nat \<Rightarrow> client" where
  "finishing_client k =
     \<lparr>compile_reply = (\<lambda>n r. Inr ''cr-1''),
      invoke_reply = (\<lambda>n r. Inr running_snapshot),
      get_reply = (\<lambda>n r. Inr (if n < k then running_snapshot else succeeded_snapshot)),
      latency = (\<lambda>n. 0)\<rparr>"

text \<open>
  How a wait that began in \<open>w\<close>, with its deadline counted from \<open>start\<close>, ends in round
  \<open>n\<close> with the result \<open>r\<close> in the world \<open>w'\<close>.
\<close>

definition wait_ends ::
  "client \<Rightarrow> nat \<Rightarrow> real \<Rightarrow> real \<Rightarrow> real \<Rightarrow> world \<Rightarrow> string \<Rightarrow> nat \<Rightarrow> error + nat \<Rightarrow> world \<Rightarrow> bool" where
  "wait_ends c h poll timeout start w nm n r w' =
     (if \<not> round_start c poll w n - start < timeout
      then r = Inl TimeoutError \<and> trace w' = trace w @ polls nm poll n
           \<and> clock w' = round_start c poll w n
      else
        (case first_reply c w nm n of
           Inl e \<Rightarrow> r = Inl e
             \<and> trace w' = trace w @ polls nm poll n @ [Call (GetWorkflowInvocation nm)]
         | Inr s1 \<Rightarrow>
             (case second_reply c w nm n of
                Inl e \<Rightarrow> r = Inl e
                  \<and> trace w' = trace w @ polls nm poll n
                       @ [Call (GetWorkflowInvocation nm), Call (GetWorkflowInvocation nm)]
              | Inr s2 \<Rightarrow> wi_state s2 \<in> set terminal_states \<and> r = Inr h
                  \<and> trace w' = trace w @ polls nm poll n
                       @ [Call (GetWorkflowInvocation nm), Call (GetWorkflowInvocation nm)]
                  \<and> objs w' h = s2
                  \<and> clock w' = round_start c poll w n + latency c (calls w + 2 * n)
                       + latency c (calls w + 2 * n + 1))))"

section \<open>Configuration and handle\<close>

text \<open>What one \<open>refresh\<close> does, by the answer of the remote.\<close>

lemma refresh_Inr:
  "get_reply c (calls w) (GetWorkflowInvocation (name h w)) = Inr s \<Longrightarrow>
   refresh c h w = (Inr h, w\<lparr>clock := clock w + latency c (calls w), calls := Suc (calls w),
        trace := trace w @ [Call (GetWorkflowInvocation (name h w))],
        objs := (objs w)(h := s)\<rparr>)"
  by (simp add: refresh_def remote_call_def called_def)

lemma refresh_Inl:
  "get_reply c (calls w) (GetWorkflowInvocation (name h w)) = Inl e \<Longrightarrow>
   refresh c h w = (Inl e, w\<lparr>clock := clock w + latency c (calls w), calls := Suc (calls w),
        trace := trace w @ [Call (GetWorkflowInvocation (name h w))]\<rparr>)"
  by (simp add: refresh_def remote_call_def called_def)

text \<open>
  C8. The repository URI is the concatenation
  \<^verbatim>\<open>projects/{projectId}/locations/{location}/repositories/{repoName}\<close> for every
  configuration, and for the test configuration it is
  \<^verbatim>\<open>projects/test-project/locations/us-central1/repositories/test-repo\<close>.
\<close>

theorem repo_uri_concat:
  "repo_uri cfg
     = ''projects/'' @ project_id cfg @ ''/locations/'' @ location cfg
         @ ''/repositories/'' @ repo_name cfg
   \<and> repo_uri test_config
       = ''projects/test-project/locations/us-central1/repositories/test-repo''"
  by (simp add: repo_uri_def test_config_def)

text \<open>
  C6. \<open>duration_seconds\<close> is meant to return none when the start or the end timestamp
  is absent from the snapshot. On a snapshot of the client library it never does: an
  unset timestamp reads as 0 seconds and 0 nanoseconds and passes the guards, so the
  result is always a number. For the running snapshot, which started at 10.5 s and has
  no end timestamp, it is -10.5. When both timestamps are set, the number is
  \<open>(end.seconds - start.seconds) + (end.nanos - start.nanos) / 1e9\<close>.
\<close>

theorem duration_seconds_unset_end:
  "fst (duration_seconds c h w) \<noteq> None
   \<and> snapshot_end running_snapshot = None
   \<and> fst (duration_seconds c 0 (world_with running_snapshot)) = Some (- 21 / 2)
   \<and> fst (duration_seconds c 0 (world_with succeeded_snapshot)) = Some (5 / 2)"
  by (simp add: duration_seconds_def start_time_def end_time_def missing_or_falsy_def
      read_invocation_timing_def read_timestamp_def world_with_def running_snapshot_def
      succeeded_snapshot_def)

text \<open>
  C7. \<open>is_complete\<close> refreshes and then answers for the state of the snapshot it fetched:
  true if and only if that state is SUCCEEDED, FAILED or CANCELLED, hence false for
  PENDING and RUNNING.
\<close>

theorem is_complete_iff_terminal:
  assumes "get_reply c (calls w) (GetWorkflowInvocation (name h w)) = Inr s"
  shows "fst (is_complete c h w)
           = Inr (wi_state s = SUCCEEDED \<or> wi_state s = FAILED \<or> wi_state s = CANCELLED)
         \<and> (wi_state s = PENDING \<or> wi_state s = RUNNING
              \<longrightarrow> fst (is_complete c h w) = Inr False)
         \<and> objs (snd (is_complete c h w)) h = s"
  using assms
  by (auto simp: is_complete_def refresh_def remote_call_def called_def terminal_states_def)

theorem is_complete_iff_terminal_witness:
  "get_reply (steady_client succeeded_snapshot) (calls (world_with running_snapshot))
       (GetWorkflowInvocation (name 0 (world_with running_snapshot))) = Inr succeeded_snapshot
   \<and> fst (is_complete (steady_client succeeded_snapshot) 0 (world_with running_snapshot))
       = Inr True
   \<and> get_reply (steady_client running_snapshot) (calls (world_with running_snapshot))
       (GetWorkflowInvocation (name 0 (world_with running_snapshot))) = Inr running_snapshot
   \<and> fst (is_complete (steady_client running_snapshot) 0 (world_with running_snapshot))
       = Inr False"
  using is_complete_iff_terminal [of "steady_client succeeded_snapshot"
      "world_with running_snapshot" 0 succeeded_snapshot]
    is_complete_iff_terminal [of "steady_client running_snapshot"
      "world_with running_snapshot" 0 running_snapshot]
  by (simp add: steady_client_def succeeded_snapshot_def running_snapshot_def)

text \<open>
  C9. Two calls of \<open>refresh\<close> in a row, against a remote that answers the second call as
  it answers the first and that answers a get with the invocation of the requested name,
  have the same outcome and leave the same stored snapshot: the one the remote holds.
\<close>

theorem refresh_idempotent:
  assumes unchanged: "get_reply c (Suc (calls w)) = get_reply c (calls w)"
    and named: "\<forall>s. get_reply c (calls w) (GetWorkflowInvocation (name h w)) = Inr s
                  \<longrightarrow> wi_name s = name h w"
  shows "fst (refresh c h (snd (refresh c h w))) = fst (refresh c h w)
         \<and> objs (snd (refresh c h (snd (refresh c h w)))) h = objs (snd (refresh c h w)) h
         \<and> (\<forall>s. get_reply c (calls w) (GetWorkflowInvocation (name h w)) = Inr s
               \<longrightarrow> objs (snd (refresh c h w)) h = s)"
proof (cases "get_reply c (calls w) (GetWorkflowInvocation (name h w))")
  case (Inl e)
  define w1 where "w1 = w\<lparr>clock := clock w + latency c (calls w), calls := Suc (calls w),
        trace := trace w @ [Call (GetWorkflowInvocation (name h w))]\<rparr>"
  have r1: "refresh c h w = (Inl e, w1)"
    unfolding w1_def by (rule refresh_Inl [OF Inl])
  have "get_reply c (calls w1) (GetWorkflowInvocation (name h w1)) = Inl e"
    using Inl unchanged by (simp add: w1_def name_def)
  from refresh_Inl [OF this] have "fst (refresh c h w1) = Inl e"
    and "objs (snd (refresh c h w1)) h = objs w1 h"
    by simp_all
  then show ?thesis
    using Inl by (simp add: r1)
next
  case (Inr s)
  define w1 where "w1 = w\<lparr>clock := clock w + latency c (calls w), calls := Suc (calls w),
        trace := trace w @ [Call (GetWorkflowInvocation (name h w))],
        objs := (objs w)(h := s)\<rparr>"
  have r1: "refresh c h w = (Inr h, w1)"
    unfolding w1_def by (rule refresh_Inr [OF Inr])
  have "wi_name s = name h w"
    using named Inr by simp
  then have "get_reply c (calls w1) (GetWorkflowInvocation (name h w1)) = Inr s"
    using Inr unchanged by (simp add: w1_def name_def)
  from refresh_Inr [OF this] have "fst (refresh c h w1) = Inr h"
    and "objs (snd (refresh c h w1)) h = s"
    by simp_all
  moreover have "objs w1 h = s"
    by (simp add: w1_def)
  ultimately show ?thesis
    using Inr by (simp add: r1)
qed

theorem refresh_idempotent_witness:
  "get_reply (steady_client succeeded_snapshot) (Suc (calls (world_with running_snapshot)))
     = get_reply (steady_client succeeded_snapshot) (calls (world_with running_snapshot))
   \<and> wi_name succeeded_snapshot = name 0 (world_with running_snapshot)
   \<and> objs (snd (refresh (steady_client succeeded_snapshot) 0 (world_with running_snapshot))) 0
       = succeeded_snapshot
   \<and> objs (snd (refresh (steady_client succeeded_snapshot) 0
              (snd (refresh (steady_client succeeded_snapshot) 0 (world_with running_snapshot))))) 0
       = succeeded_snapshot"
  using refresh_idempotent [where c = "steady_client succeeded_snapshot"
      and w = "world_with running_snapshot" and h = 0]
  by (simp add: steady_client_def world_with_def name_def succeeded_snapshot_def
      running_snapshot_def)

text \<open>
  C10. \<open>start_time\<close>, \<open>end_time\<close> and \<open>duration_seconds\<close> return the world they were given
  (no remote call, no refresh, the stored snapshot untouched) and their value depends on
  the stored snapshot alone; \<open>is_complete\<close>, a state query, makes a remote call.
\<close>

theorem timing_accessors_frame:
  "snd (start_time c h w) = w \<and> snd (end_time c h w) = w \<and> snd (duration_seconds c h w) = w
   \<and> (objs w h = objs w' h' \<longrightarrow>
        fst (start_time c h w) = fst (start_time c' h' w')
        \<and> fst (end_time c h w) = fst (end_time c' h' w')
        \<and> fst (duration_seconds c h w) = fst (duration_seconds c' h' w'))
   \<and> calls (snd (is_complete c h w)) = Suc (calls w)
   \<and> trace (snd (is_complete c h w)) = trace w @ [Call (GetWorkflowInvocation (name h w))]"
  by (auto simp: start_time_def end_time_def duration_seconds_def missing_or_falsy_def
      is_complete_def refresh_def remote_call_def called_def split: sum.splits)

theorem timing_accessors_frame_witness:
  "objs (world_with succeeded_snapshot) 0 = objs (world_with succeeded_snapshot) 7
   \<and> fst (start_time (steady_client running_snapshot) 0 (world_with succeeded_snapshot))
       = fst (start_time failing_client 7 (world_with succeeded_snapshot))
   \<and> fst (start_time (steady_client running_snapshot) 0 (world_with succeeded_snapshot))
       = Some \<lparr>td_seconds = 10, td_nanos = 500000000\<rparr>
   \<and> snd (duration_seconds (steady_client running_snapshot) 0 (world_with succeeded_snapshot))
       = world_with succeeded_snapshot"
  using timing_accessors_frame [where w = "world_with succeeded_snapshot" and h = 0
      and w' = "world_with succeeded_snapshot" and h' = 7
      and c = "steady_client running_snapshot" and c' = failing_client]
  by (simp add: world_with_def start_time_def missing_or_falsy_def read_invocation_timing_def
      read_timestamp_def succeeded_snapshot_def)


section \<open>Waiting for completion\<close>

lemma is_complete_Inr:
  "get_reply c (calls w) (GetWorkflowInvocation (name h w)) = Inr s \<Longrightarrow>
   is_complete c h w = (Inr (wi_state s \<in> set terminal_states),
      w\<lparr>clock := clock w + latency c (calls w), calls := Suc (calls w),
        trace := trace w @ [Call (GetWorkflowInvocation (name h w))],
        objs := (objs w)(h := s)\<rparr>)"
  by (simp add: is_complete_def refresh_Inr)

lemma wait_loop_timeout:
  "\<not> clock w - start < timeout \<Longrightarrow> wait_loop c h poll timeout start w = Some (Inl TimeoutError, w)"
  by (subst wait_loop.simps) simp

lemma wait_loop_poll:
  assumes "clock w - start < timeout"
    and "get_reply c (calls w) (GetWorkflowInvocation (name h w)) = Inr s1"
    and "get_reply c (Suc (calls w)) (GetWorkflowInvocation (wi_name s1)) = Inr s2"
    and "wi_state s2 \<notin> set terminal_states"
    and "0 \<le> poll"
  shows "wait_loop c h poll timeout start w
           = wait_loop c h poll timeout start (after_poll c h poll s1 s2 w)"
proof -
  define w1 where "w1 = w\<lparr>clock := clock w + latency c (calls w), calls := Suc (calls w),
        trace := trace w @ [Call (GetWorkflowInvocation (name h w))],
        objs := (objs w)(h := s1)\<rparr>"
  have r1: "refresh c h w = (Inr h, w1)"
    unfolding w1_def by (rule refresh_Inr [OF assms(2)])
  have "get_reply c (calls w1) (GetWorkflowInvocation (name h w1)) = Inr s2"
    using assms(3) by (simp add: w1_def name_def)
  from is_complete_Inr [OF this]
  have r2: "is_complete c h w1 = (Inr False, w1\<lparr>clock := clock w1 + latency c (calls w1), calls := Suc (calls w1),
        trace := trace w1 @ [Call (GetWorkflowInvocation (name h w1))],
        objs := (objs w1)(h := s2)\<rparr>)"
    using assms(4) by simp
  have r3: "sleep poll (w1\<lparr>clock := clock w1 + latency c (calls w1), calls := Suc (calls w1),
        trace := trace w1 @ [Call (GetWorkflowInvocation (name h w1))],
        objs := (objs w1)(h := s2)\<rparr>) = (Inr (), after_poll c h poll s1 s2 w)"
    using assms(5) by (cases w) (simp add: sleep_def w1_def after_poll_def name_def)
  show ?thesis
    by (subst wait_loop.simps) (simp add: assms(1) r1 r2 r3)
qed

lemma wait_loop_done:
  assumes "clock w - start < timeout"
    and "get_reply c (calls w) (GetWorkflowInvocation (name h w)) = Inr s1"
    and "get_reply c (Suc (calls w)) (GetWorkflowInvocation (wi_name s1)) = Inr s2"
    and "wi_state s2 \<in> set terminal_states"
  shows "wait_loop c h poll timeout start w
           = Some (Inr h, w\<lparr>clock := clock w + latency c (calls w) + latency c (Suc (calls w)),
       calls := Suc (Suc (calls w)),
       trace := trace w @ [Call (GetWorkflowInvocation (name h w)),
                           Call (GetWorkflowInvocation (wi_name s1))],
       objs := (objs w)(h := s2)\<rparr>)"
proof -
  define w1 where "w1 = w\<lparr>clock := clock w + latency c (calls w), calls := Suc (calls w),
        trace := trace w @ [Call (GetWorkflowInvocation (name h w))],
        objs := (objs w)(h := s1)\<rparr>"
  have r1: "refresh c h w = (Inr h, w1)"
    unfolding w1_def by (rule refresh_Inr [OF assms(2)])
  have "get_reply c (calls w1) (GetWorkflowInvocation (name h w1)) = Inr s2"
    using assms(3) by (simp add: w1_def name_def)
  from is_complete_Inr [OF this]
  have r2: "is_complete c h w1 = (Inr True, w1\<lparr>clock := clock w1 + latency c (calls w1), calls := Suc (calls w1),
        trace := trace w1 @ [Call (GetWorkflowInvocation (name h w1))],
        objs := (objs w1)(h := s2)\<rparr>)"
    using assms(4) by simp
  have r3: "w1\<lparr>clock := clock w1 + latency c (calls w1), calls := Suc (calls w1),
        trace := trace w1 @ [Call (GetWorkflowInvocation (name h w1))],
        objs := (objs w1)(h := s2)\<rparr> = w\<lparr>clock := clock w + latency c (calls w) + latency c (Suc (calls w)),
       calls := Suc (Suc (calls w)),
       trace := trace w @ [Call (GetWorkflowInvocation (name h w)),
                           Call (GetWorkflowInvocation (wi_name s1))],
       objs := (objs w)(h := s2)\<rparr>"
    by (cases w) (simp add: w1_def name_def)
  show ?thesis
    by (subst wait_loop.simps) (simp add: assms(1) r1 r2 r3)
qed


lemma wait_loop_refresh_fails:
  assumes "clock w - start < timeout"
    and "get_reply c (calls w) (GetWorkflowInvocation (name h w)) = Inl e"
  shows "wait_loop c h poll timeout start w
           = Some (Inl e, called c (GetWorkflowInvocation (name h w)) w)"
  using assms
  by (subst wait_loop.simps) (simp add: refresh_def remote_call_def)

lemma wait_loop_check_fails:
  assumes "clock w - start < timeout"
    and "get_reply c (calls w) (GetWorkflowInvocation (name h w)) = Inr s1"
    and "get_reply c (Suc (calls w)) (GetWorkflowInvocation (wi_name s1)) = Inl e"
  shows "\<exists>w'. wait_loop c h poll timeout start w = Some (Inl e, w')
           \<and> trace w' = trace w @ [Call (GetWorkflowInvocation (name h w)),
                                    Call (GetWorkflowInvocation (wi_name s1))]"
proof -
  define w1 where "w1 = w\<lparr>clock := clock w + latency c (calls w), calls := Suc (calls w),
        trace := trace w @ [Call (GetWorkflowInvocation (name h w))],
        objs := (objs w)(h := s1)\<rparr>"
  have r1: "refresh c h w = (Inr h, w1)"
    unfolding w1_def by (rule refresh_Inr [OF assms(2)])
  have "get_reply c (calls w1) (GetWorkflowInvocation (name h w1)) = Inl e"
    using assms(3) by (simp add: w1_def name_def)
  then have r2: "is_complete c h w1 = (Inl e, called c (GetWorkflowInvocation (name h w1)) w1)"
    by (simp add: is_complete_def refresh_def remote_call_def)
  have "wait_loop c h poll timeout start w
      = Some (Inl e, called c (GetWorkflowInvocation (name h w1)) w1)"
    by (subst wait_loop.simps) (simp add: assms(1) r1 r2)
  then show ?thesis
    by (simp add: called_def w1_def name_def)
qed


lemma polls_Suc:
  "polls nm poll (Suc n)
     = [Call (GetWorkflowInvocation nm), Call (GetWorkflowInvocation nm), Sleep poll]
         @ polls nm poll n"
  by (simp add: polls_def)

lemma round_shift:
  assumes "calls w3 = Suc (Suc (calls w))"
    and "clock w3 = clock w + latency c (calls w) + latency c (Suc (calls w)) + poll"
  shows "round_start c poll w (Suc j) = round_start c poll w3 j"
    and "first_reply c w nm (Suc j) = first_reply c w3 nm j"
    and "second_reply c w nm (Suc j) = second_reply c w3 nm j"
    and "still_running c w nm (Suc j) = still_running c w3 nm j"
proof -
  have "(\<Sum>i<2 * Suc j. latency c (calls w + i))
      = latency c (calls w) + latency c (Suc (calls w)) + (\<Sum>i<2 * j. latency c (calls w3 + i))"
    by (simp add: assms(1) sum.lessThan_Suc_shift del: sum.lessThan_Suc)
  then show "round_start c poll w (Suc j) = round_start c poll w3 j"
    by (simp add: round_start_def assms(2) algebra_simps)
  show f: "first_reply c w nm (Suc j) = first_reply c w3 nm j"
    by (simp add: first_reply_def assms(1))
  show s: "second_reply c w nm (Suc j) = second_reply c w3 nm j"
    by (simp add: second_reply_def assms(1))
  show "still_running c w nm (Suc j) = still_running c w3 nm j"
    unfolding still_running_def f s ..
qed

lemma wait_ends_shift:
  assumes "calls w3 = Suc (Suc (calls w))"
    and "clock w3 = clock w + latency c (calls w) + latency c (Suc (calls w)) + poll"
    and "trace w3 = trace w @ [Call (GetWorkflowInvocation nm),
                               Call (GetWorkflowInvocation nm), Sleep poll]"
    and "wait_ends c h poll timeout start w3 nm n r w'"
  shows "wait_ends c h poll timeout start w nm (Suc n) r w'"
proof -
  have c: "calls w + 2 * Suc n = calls w3 + 2 * n"
    using assms(1) by simp
  show ?thesis
    using assms(4)
    unfolding wait_ends_def round_shift [OF assms(1,2)] polls_Suc assms(3) c
    by (auto split: sum.splits if_splits)
qed

lemma wait_ends_0:
  "wait_ends c h poll timeout start w nm 0 r w' =
     (if \<not> clock w - start < timeout
      then r = Inl TimeoutError \<and> trace w' = trace w \<and> clock w' = clock w
      else
        (case get_reply c (calls w) (GetWorkflowInvocation nm) of
           Inl e \<Rightarrow> r = Inl e \<and> trace w' = trace w @ [Call (GetWorkflowInvocation nm)]
         | Inr s1 \<Rightarrow>
             (case get_reply c (Suc (calls w)) (GetWorkflowInvocation nm) of
                Inl e \<Rightarrow> r = Inl e
                  \<and> trace w' = trace w
                       @ [Call (GetWorkflowInvocation nm), Call (GetWorkflowInvocation nm)]
              | Inr s2 \<Rightarrow> wi_state s2 \<in> set terminal_states \<and> r = Inr h
                  \<and> trace w' = trace w
                       @ [Call (GetWorkflowInvocation nm), Call (GetWorkflowInvocation nm)]
                  \<and> objs w' h = s2
                  \<and> clock w' = clock w + latency c (calls w) + latency c (Suc (calls w)))))"
  by (auto simp: wait_ends_def round_start_def polls_def first_reply_def second_reply_def
      split: sum.splits)

lemma wait_loop_rounds:
  assumes poll: "0 < poll"
    and lat: "\<forall>n. 0 \<le> latency c n"
    and named: "\<forall>n r s. get_reply c n r = Inr s \<longrightarrow> wi_name s = nm"
  shows "timeout - (clock w - start) \<le> real k * poll \<Longrightarrow> name h w = nm \<Longrightarrow>
         \<exists>n r w'. wait_loop c h poll timeout start w = Some (r, w')
            \<and> (\<forall>j<n. round_start c poll w j - start < timeout \<and> still_running c w nm j)
            \<and> wait_ends c h poll timeout start w nm n r w'"
proof (induction k arbitrary: w)
  case 0
  then have late: "\<not> clock w - start < timeout" by simp
  from wait_loop_timeout [OF this] late show ?case
    by (intro exI [of _ 0] exI [of _ "Inl TimeoutError"] exI [of _ w]) (simp add: wait_ends_0)
next
  case (Suc k)
  show ?case
  proof (cases "clock w - start < timeout")
    case False
    from wait_loop_timeout [OF this] False show ?thesis
      by (intro exI [of _ 0] exI [of _ "Inl TimeoutError"] exI [of _ w]) (simp add: wait_ends_0)
  next
    case True
    note nm = \<open>name h w = nm\<close>
    show ?thesis
    proof (cases "get_reply c (calls w) (GetWorkflowInvocation (name h w))")
      case (Inl e)
      from wait_loop_refresh_fails [OF True Inl] True Inl nm show ?thesis
        by (intro exI [of _ 0] exI [of _ "Inl e"]
            exI [of _ "called c (GetWorkflowInvocation (name h w)) w"])
          (simp add: wait_ends_0 called_def)
    next
      case (Inr s1)
      then have n1: "wi_name s1 = nm" using named by blast
      show ?thesis
      proof (cases "get_reply c (Suc (calls w)) (GetWorkflowInvocation (wi_name s1))")
        case (Inl e)
        from wait_loop_check_fails [OF True Inr Inl] obtain w' where
          "wait_loop c h poll timeout start w = Some (Inl e, w')"
          "trace w' = trace w @ [Call (GetWorkflowInvocation (name h w)),
                                    Call (GetWorkflowInvocation (wi_name s1))]"
          by blast
        with True Inr Inl nm n1 show ?thesis
          by (intro exI [of _ 0] exI [of _ "Inl e"] exI [of _ w']) (simp add: wait_ends_0)
      next
        case s2: (Inr s2)
        then have n2: "wi_name s2 = nm" using named by blast
        show ?thesis
        proof (cases "wi_state s2 \<in> set terminal_states")
          case tm: True
          from wait_loop_done [OF True Inr s2 tm, of poll]
          show ?thesis
            using True Inr s2 tm nm n1
            by (intro exI [of _ 0] exI [of _ "Inr h"]
                exI [of _ "w\<lparr>clock := clock w + latency c (calls w) + latency c (Suc (calls w)),
                   calls := Suc (Suc (calls w)),
                   trace := trace w @ [Call (GetWorkflowInvocation (name h w)),
                                       Call (GetWorkflowInvocation (wi_name s1))],
                   objs := (objs w)(h := s2)\<rparr>"])
              (simp add: wait_ends_0)
        next
          case running: False
          let ?w3 = "after_poll c h poll s1 s2 w"
          have step: "wait_loop c h poll timeout start w = wait_loop c h poll timeout start ?w3"
            using wait_loop_poll [OF True Inr s2 running] poll by simp
          have w3: "calls ?w3 = Suc (Suc (calls w))"
            "clock ?w3 = clock w + latency c (calls w) + latency c (Suc (calls w)) + poll"
            "trace ?w3 = trace w @ [Call (GetWorkflowInvocation nm),
                               Call (GetWorkflowInvocation nm), Sleep poll]"
            "name h ?w3 = nm"
            using nm n1 n2 by (simp_all add: after_poll_def name_def)
          have "0 \<le> latency c (calls w)" "0 \<le> latency c (Suc (calls w))"
            using lat by simp_all
          then have "timeout - (clock ?w3 - start) \<le> real k * poll"
            using Suc.prems(1) w3(2) by (simp add: algebra_simps)
          from Suc.IH [OF this w3(4)] obtain n r w' where
            res: "wait_loop c h poll timeout start ?w3 = Some (r, w')"
              "\<forall>j<n. round_start c poll ?w3 j - start < timeout \<and> still_running c ?w3 nm j"
              "wait_ends c h poll timeout start ?w3 nm n r w'"
            by blast
          have r0: "round_start c poll w 0 - start < timeout"
            using True by (simp add: round_start_def)
          have s0: "still_running c w nm 0"
            using Inr s2 running nm n1
            by (simp add: still_running_def first_reply_def second_reply_def)
          have "\<forall>j<Suc n. round_start c poll w j - start < timeout \<and> still_running c w nm j"
          proof (intro allI impI)
            fix j assume "j < Suc n"
            show "round_start c poll w j - start < timeout \<and> still_running c w nm j"
            proof (cases j)
              case 0
              then show ?thesis using r0 s0 by simp
            next
              case (Suc j')
              then have "j' < n" using \<open>j < Suc n\<close> by simp
              with res(2) show ?thesis
                unfolding Suc round_shift [OF w3(1,2)] by blast
            qed
          qed
          moreover have "wait_ends c h poll timeout start w nm (Suc n) r w'"
            by (rule wait_ends_shift [OF w3(1,2,3) res(3)])
          ultimately show ?thesis
            using step res(1) by (intro exI [of _ "Suc n"] exI [of _ r] exI [of _ w']) simp
        qed
      qed
    qed
  qed
qed


text \<open>
  C2 (as amended). \<open>wait_for_completion\<close> is a loop of rounds. Before each round it
  tests the deadline, counted from the time of the call, and raises TimeoutError when
  the deadline has passed. A round refreshes, refreshes again inside \<open>is_complete\<close>,
  returns the handle at once when that second snapshot is terminal, and sleeps the poll
  interval only otherwise; an error of either refresh ends the wait with that error.
  So, with a positive poll interval against a remote that answers a get with the
  invocation of the requested name, the wait ends in the first round \<open>n\<close> that does not
  find the workflow still running before the deadline: all rounds before it did and
  slept, and round \<open>n\<close> ends the wait in the way its deadline test and its two answers
  decide. Against a handle that never becomes terminal this is a TimeoutError, raised
  not earlier than \<open>timeout\<close> after the call.
\<close>

theorem wait_for_completion_rounds:
  assumes poll: "0 < poll"
    and lat: "\<forall>n. 0 \<le> latency c n"
    and named: "\<forall>n r s. get_reply c n r = Inr s \<longrightarrow> wi_name s = name h w"
  shows "\<exists>n r w'. wait_for_completion c h poll timeout w = Some (r, w')
     \<and> (\<forall>j<n. round_start c poll w j - clock w < timeout
               \<and> still_running c w (name h w) j)
     \<and> (if \<not> round_start c poll w n - clock w < timeout
        then r = Inl TimeoutError
             \<and> trace w' = trace w @ polls (name h w) poll n
             \<and> clock w' = round_start c poll w n
             \<and> timeout \<le> clock w' - clock w
        else
          (case first_reply c w (name h w) n of
             Inl e \<Rightarrow> r = Inl e
               \<and> trace w' = trace w @ polls (name h w) poll n
                    @ [Call (GetWorkflowInvocation (name h w))]
           | Inr s1 \<Rightarrow>
               (case second_reply c w (name h w) n of
                  Inl e \<Rightarrow> r = Inl e
                    \<and> trace w' = trace w @ polls (name h w) poll n
                         @ [Call (GetWorkflowInvocation (name h w)),
                            Call (GetWorkflowInvocation (name h w))]
                | Inr s2 \<Rightarrow> wi_state s2 \<in> set terminal_states \<and> r = Inr h
                    \<and> trace w' = trace w @ polls (name h w) poll n
                         @ [Call (GetWorkflowInvocation (name h w)),
                            Call (GetWorkflowInvocation (name h w))]
                    \<and> objs w' h = s2
                    \<and> clock w' = round_start c poll w n + latency c (calls w + 2 * n)
                         + latency c (calls w + 2 * n + 1))))
     \<and> ((\<forall>k q. \<exists>s. get_reply c k q = Inr s \<and> wi_state s \<notin> set terminal_states)
          \<longrightarrow> r = Inl TimeoutError \<and> timeout \<le> clock w' - clock w)"
proof -
  from poll obtain k where "timeout < real k * poll"
    using reals_Archimedean3 by blast
  then have "timeout - (clock w - clock w) \<le> real k * poll" by simp
  from wait_loop_rounds [OF poll lat named this refl] obtain n r w' where
    res: "wait_loop c h poll timeout (clock w) w = Some (r, w')"
      "\<forall>j<n. round_start c poll w j - clock w < timeout \<and> still_running c w (name h w) j"
      "wait_ends c h poll timeout (clock w) w (name h w) n r w'"
    by blast
  have never: "r = Inl TimeoutError \<and> timeout \<le> clock w' - clock w"
    if "\<forall>k q. \<exists>s. get_reply c k q = Inr s \<and> wi_state s \<notin> set terminal_states"
  proof -
    from that obtain s1 where s1: "first_reply c w (name h w) n = Inr s1"
      unfolding first_reply_def by blast
    from that obtain s2 where s2: "second_reply c w (name h w) n = Inr s2"
      "wi_state s2 \<notin> set terminal_states"
      unfolding second_reply_def by blast
    show ?thesis
      using res(3) unfolding wait_ends_def s1 s2(1)
      using s2(2) by (auto split: if_splits)
  qed
  have ends: "if \<not> round_start c poll w n - clock w < timeout
        then r = Inl TimeoutError
             \<and> trace w' = trace w @ polls (name h w) poll n
             \<and> clock w' = round_start c poll w n
             \<and> timeout \<le> clock w' - clock w
        else
          (case first_reply c w (name h w) n of
             Inl e \<Rightarrow> r = Inl e
               \<and> trace w' = trace w @ polls (name h w) poll n
                    @ [Call (GetWorkflowInvocation (name h w))]
           | Inr s1 \<Rightarrow>
               (case second_reply c w (name h w) n of
                  Inl e \<Rightarrow> r = Inl e
                    \<and> trace w' = trace w @ polls (name h w) poll n
                         @ [Call (GetWorkflowInvocation (name h w)),
                            Call (GetWorkflowInvocation (name h w))]
                | Inr s2 \<Rightarrow> wi_state s2 \<in> set terminal_states \<and> r = Inr h
                    \<and> trace w' = trace w @ polls (name h w) poll n
                         @ [Call (GetWorkflowInvocation (name h w)),
                            Call (GetWorkflowInvocation (name h w))]
                    \<and> objs w' h = s2
                    \<and> clock w' = round_start c poll w n + latency c (calls w + 2 * n)
                         + latency c (calls w + 2 * n + 1)))"
    using res(3) unfolding wait_ends_def
    by (auto split: if_splits sum.splits)
  have never': "(\<forall>k q. \<exists>s. get_reply c k q = Inr s \<and> wi_state s \<notin> set terminal_states)
          \<longrightarrow> r = Inl TimeoutError \<and> timeout \<le> clock w' - clock w"
    using never by blast
  show ?thesis
    unfolding wait_for_completion_def
    by (rule exI [of _ n], rule exI [of _ r], rule exI [of _ w'],
        rule conjI [OF res(1)], rule conjI [OF res(2)], rule conjI [OF ends never'])
qed


theorem wait_for_completion_rounds_witness:
  "(0::real) < 1
   \<and> (\<forall>n. 0 \<le> latency (finishing_client 3) n)
   \<and> (\<forall>n r. \<exists>s. get_reply (finishing_client 3) n r = Inr s
          \<and> wi_name s = name 0 (world_with running_snapshot))
   \<and> (\<exists>w'. wait_for_completion (finishing_client 3) 0 1 10 (world_with running_snapshot)
               = Some (Inr 0, w')
          \<and> clock w' = 1
          \<and> trace w' = polls ''inv-1'' 1 1
               @ [Call (GetWorkflowInvocation ''inv-1''), Call (GetWorkflowInvocation ''inv-1'')]
          \<and> wi_state (objs w' 0) = SUCCEEDED)
   \<and> outcome (wait_for_completion (steady_client running_snapshot) 0 1 2
                (world_with running_snapshot))
       = Some (Inl TimeoutError, 2, polls ''inv-1'' 1 2)"
proof -
  let ?c = "finishing_client 3"
  let ?w = "world_with running_snapshot"
  have lat: "\<forall>n. 0 \<le> latency ?c n"
    by (simp add: finishing_client_def)
  have ans: "\<forall>n r. \<exists>s. get_reply ?c n r = Inr s \<and> wi_name s = name 0 ?w"
    by (simp add: finishing_client_def name_def world_with_def running_snapshot_def
        succeeded_snapshot_def)
  then have named: "\<forall>n r s. get_reply ?c n r = Inr s \<longrightarrow> wi_name s = name 0 ?w"
    by (metis sum.inject(2))
  have p: "(0::real) < 1" by simp
  from wait_for_completion_rounds [OF p lat named, of 10]
  obtain r w' where res: "wait_for_completion ?c 0 1 10 ?w = Some (r, w')"
    by (elim exE conjE)
  have ev: "map_option (\<lambda>(r, w). (r, clock w, trace w, wi_state (objs w 0)))
        (wait_for_completion ?c 0 1 10 ?w)
      = Some (Inr 0, 1, [Call (GetWorkflowInvocation ''inv-1''),
           Call (GetWorkflowInvocation ''inv-1''), Sleep 1,
           Call (GetWorkflowInvocation ''inv-1''), Call (GetWorkflowInvocation ''inv-1'')],
           SUCCEEDED)"
    by (simp add: wait_for_completion_def wait_loop.simps refresh_def
      is_complete_def remote_call_def called_def sleep_def name_def finishing_client_def
      world_with_def running_snapshot_def succeeded_snapshot_def terminal_states_def)
  have first: "\<exists>w'. wait_for_completion ?c 0 1 10 ?w = Some (Inr 0, w')
          \<and> clock w' = 1
          \<and> trace w' = polls ''inv-1'' 1 1
               @ [Call (GetWorkflowInvocation ''inv-1''), Call (GetWorkflowInvocation ''inv-1'')]
          \<and> wi_state (objs w' 0) = SUCCEEDED"
    using ev res by (simp add: polls_def)
  have second: "outcome (wait_for_completion (steady_client running_snapshot) 0 1 2 ?w)
       = Some (Inl TimeoutError, 2, polls ''inv-1'' 1 2)"
    by (simp add: outcome_def wait_for_completion_def wait_loop.simps refresh_def
      is_complete_def remote_call_def called_def sleep_def name_def steady_client_def
      world_with_def running_snapshot_def terminal_states_def polls_def
      numeral_2_eq_2)
  show ?thesis
    using lat ans first second by simp
qed

text \<open>
  C2 as stated fails. With poll interval 1 and timeout 2 against a handle that stays
  RUNNING, the first effect of the loop is a refresh, not a sleep, and the last one
  before the TimeoutError at time 2 is a sleep that no refresh follows. Against a handle
  already SUCCEEDED the call returns after its two refreshes without sleeping at all.
\<close>

theorem wait_for_completion_sleeps_first_counterexample:
  "outcome (wait_for_completion (steady_client running_snapshot) 0 1 2
              (world_with running_snapshot))
     = Some (Inl TimeoutError, 2,
             [Call (GetWorkflowInvocation ''inv-1''), Call (GetWorkflowInvocation ''inv-1''),
              Sleep 1,
              Call (GetWorkflowInvocation ''inv-1''), Call (GetWorkflowInvocation ''inv-1''),
              Sleep 1])
   \<and> outcome (wait_for_completion (steady_client succeeded_snapshot) 0 1 2
                (world_with running_snapshot))
     = Some (Inr 0, 0,
             [Call (GetWorkflowInvocation ''inv-1''), Call (GetWorkflowInvocation ''inv-1'')])"
  by (simp add: outcome_def wait_for_completion_def wait_loop.simps refresh_def
      is_complete_def remote_call_def called_def sleep_def name_def steady_client_def world_with_def
      running_snapshot_def succeeded_snapshot_def terminal_states_def)

section \<open>The wait always ends\<close>


lemma refresh_result: "fst (refresh c h w) = Inr h' \<Longrightarrow> h' = h"
  by (simp add: refresh_def remote_call_def called_def split: sum.splits)






section \<open>The retry loop\<close>

text \<open>Facts about traces.\<close>

lemma held_after_append: "held_after b (xs @ ys) = held_after (held_after b xs) ys"
  by (induction b xs rule: held_after.induct) simp_all

lemma calls_unlocked_append:
  "calls_unlocked b (xs @ ys) = (calls_unlocked b xs \<and> calls_unlocked (held_after b xs) ys)"
  by (induction b xs rule: calls_unlocked.induct) simp_all

lemma remote_or_sleep_held: "list_all remote_or_sleep es \<Longrightarrow> held_after b es = b"
  by (induction b es rule: held_after.induct) simp_all

lemma remote_or_sleep_unlocked: "list_all remote_or_sleep es \<Longrightarrow> calls_unlocked False es"
  by (induction "False" es rule: calls_unlocked.induct) simp_all

lemma remote_or_sleep_no_callback:
  "list_all remote_or_sleep es \<Longrightarrow>
     filter is_on_start es = [] \<and> filter is_on_complete es = [] \<and> filter is_on_error es = []"
proof (induction es)
  case Nil
  then show ?case by simp
next
  case (Cons e es)
  then show ?case by (cases e) simp_all
qed


lemma called_simps:
  "clock (called c r w) = clock w + latency c (calls w)"
  "calls (called c r w) = Suc (calls w)"
  "trace (called c r w) = trace w @ [Call r]"
  "objs (called c r w) = objs w"
  "nobjs (called c r w) = nobjs w"
  by (simp_all add: called_def)

text \<open>The submission: \<open>run_workflow\<close> without waiting, by the answers of the remote.\<close>

lemma run_workflow_compile_fails:
  assumes "compile_reply c (calls w) (compilation_request svc (Some (execution_params eid)) None) = Inl e"
  shows "run_workflow c svc eid False t fr w
           = Some (Inl e, svc, called c (compilation_request svc (Some (execution_params eid)) None) w)"
  using assms by (simp add: run_workflow_def compile_def remote_call_def)

lemma run_workflow_invoke_fails:
  assumes "compile_reply c (calls w) (compilation_request svc (Some (execution_params eid)) None) = Inr cn"
    and "invoke_reply c (Suc (calls w)) (invocation_request svc cn fr True True) = Inl e"
  shows "run_workflow c svc eid False t fr w
           = Some (Inl e, svc, called c (invocation_request svc cn fr True True)
                  (called c (compilation_request svc (Some (execution_params eid)) None) w))"
  using assms
  by (simp add: run_workflow_def compile_def remote_call_def create_workflow_def
      invoke_workflow_def called_simps)



lemma try_block_fails:
  assumes "\<forall>n r r'. isl (compile_reply c n r) \<or> isl (invoke_reply c (Suc n) r')"
  shows "\<exists>e w1 new. try_block c m eid wait t fr w = Some (Inl e, None, m, w1)
           \<and> trace w1 = trace w @ new \<and> list_all remote_or_sleep new"
proof -
  let ?req = "compilation_request (service m) (Some (execution_params (Some eid))) None"
  show ?thesis
  proof (cases "compile_reply c (calls w) ?req")
    case (Inl e)
    from run_workflow_compile_fails [OF this] show ?thesis
      by (simp add: try_block_def called_simps)
  next
    case (Inr cn)
    let ?req2 = "invocation_request (service m) cn fr True True"
    from assms have "isl (compile_reply c (calls w) ?req) \<or> isl (invoke_reply c (Suc (calls w)) ?req2)"
      by blast
    with Inr obtain e where "invoke_reply c (Suc (calls w)) ?req2 = Inl e"
      by (cases "invoke_reply c (Suc (calls w)) ?req2") simp_all
    from run_workflow_invoke_fails [OF Inr this] show ?thesis
      by (simp add: try_block_def called_simps)
  qed
qed


lemma retry_loop_all_fail:
  assumes fails: "\<forall>n r r'. isl (compile_reply c n r) \<or> isl (invoke_reply c (Suc n) r')"
    and cbs: "map_of (workflow_callbacks m) eid = Some cbs" "on_error cbs = Some Returns"
    and delay: "0 \<le> retry_delay_seconds m"
  shows "nat (max_retries m + 1 - retries) = k \<Longrightarrow>
         \<exists>w' new errs. retry_loop c eid wait t fr retries None m w = Some (Inr (), m, w')
           \<and> trace w' = trace w @ new
           \<and> filter is_on_error new = map (OnError eid None) errs \<and> length errs = k
           \<and> filter is_on_start new = [] \<and> filter is_on_complete new = []"
proof (induction k arbitrary: retries w)
  case 0
  then have "\<not> retries \<le> max_retries m" by simp
  then have "retry_loop c eid wait t fr retries None m w = Some (Inr (), m, w)"
    by (subst retry_loop.simps) simp
  then show ?case by simp
next
  case (Suc k)
  then have le: "retries \<le> max_retries m" by simp
  from try_block_fails [OF fails] obtain e w1 new1 where
    tb: "try_block c m eid wait t fr w = Some (Inl e, None, m, w1)"
      "trace w1 = trace w @ new1" "list_all remote_or_sleep new1"
    by blast
  define w2 where "w2 = emit (OnError eid None e) w1"
  have nt: "notify m eid on_error (OnError eid None e) w1 = (Inr (), w2)"
    using cbs by (simp add: notify_def call_back_def w2_def)
  define w3 where "w3 = (if retries + 1 \<le> max_retries m
      then w2\<lparr>clock := clock w2 + retry_delay_seconds m,
              trace := trace w2 @ [Sleep (retry_delay_seconds m)]\<rparr> else w2)"
  have step: "retry_loop c eid wait t fr retries None m w
      = retry_loop c eid wait t fr (retries + 1) None m w3"
    using le tb(1) nt delay
    by (subst retry_loop.simps) (simp add: sleep_def w3_def)
  have "nat (max_retries m + 1 - (retries + 1)) = k"
    using Suc.prems by simp
  from Suc.IH [OF this] obtain w' new errs where
    res: "retry_loop c eid wait t fr (retries + 1) None m w3 = Some (Inr (), m, w')"
      "trace w' = trace w3 @ new"
      "filter is_on_error new = map (OnError eid None) errs" "length errs = k"
      "filter is_on_start new = []" "filter is_on_complete new = []"
    by blast
  obtain tail where tail: "trace w3 = trace w @ new1 @ OnError eid None e # tail"
    "list_all remote_or_sleep tail"
    using tb(2) by (cases "retries + 1 \<le> max_retries m") (simp_all add: w3_def w2_def emit_def)
  have nc1: "filter is_on_start new1 = [] \<and> filter is_on_complete new1 = []
      \<and> filter is_on_error new1 = []"
    using remote_or_sleep_no_callback [OF tb(3)] .
  have nc2: "filter is_on_start tail = [] \<and> filter is_on_complete tail = []
      \<and> filter is_on_error tail = []"
    using remote_or_sleep_no_callback [OF tail(2)] .
  have "trace w' = trace w @ (new1 @ OnError eid None e # tail @ new)"
    using res(2) tail(1) by simp
  moreover have "filter is_on_error (new1 @ OnError eid None e # tail @ new)
      = map (OnError eid None) (e # errs)"
    using nc1 nc2 res(3) by simp
  moreover have "length (e # errs) = Suc k"
    using res(4) by simp
  moreover have "filter is_on_start (new1 @ OnError eid None e # tail @ new) = []"
    "filter is_on_complete (new1 @ OnError eid None e # tail @ new) = []"
    using nc1 nc2 res(5,6) by simp_all
  ultimately show ?case
    using step res(1)
    by (intro exI [of _ w'] exI [of _ "new1 @ OnError eid None e # tail @ new"]
        exI [of _ "e # errs"]) simp
qed

text \<open>
  C1 (as amended). A call of the manager's \<open>run_workflow\<close> stores the callbacks under
  the execution id; a worker runs the retry loop later, on the manager as it is then.
  When every submission fails (the compilation is refused, or else the invocation is),
  the \<open>on_error\<close> callback returns normally, the retry delay is not negative, and the
  callbacks stored by the call are still the ones registered under the id, the loop
  ends normally, it invoked \<open>on_error\<close> \<open>max_retries + 1\<close> times (not at all when
  \<open>max_retries\<close> is negative), each time with no handle and the error of the attempt,
  and it invoked neither \<open>on_start\<close> nor \<open>on_complete\<close>.
\<close>

theorem retry_invokes_on_error:
  assumes fails: "\<forall>n r r'. isl (compile_reply c n r) \<or> isl (invoke_reply c (Suc n) r')"
    and submit: "manager_run_workflow m0 execution_id on_start_cb on_complete_cb (Some Returns) w0
                   = (eid, m1)"
    and kept: "map_of (workflow_callbacks m) eid = map_of (workflow_callbacks m1) eid"
    and delay: "0 \<le> retry_delay_seconds m"
  shows "\<exists>w' new errs. run_workflow_with_retry c m eid wait timeout_seconds full_refresh w
                     = Some (Inr (), m, w')
           \<and> trace w' = trace w @ new
           \<and> filter is_on_error new = map (OnError eid None) errs
           \<and> length errs = nat (max_retries m + 1)
           \<and> filter is_on_start new = [] \<and> filter is_on_complete new = []"
proof -
  have "map_of (workflow_callbacks m1) eid
       = Some \<lparr>on_start = on_start_cb, on_complete = on_complete_cb, on_error = Some Returns\<rparr>"
    using submit by (auto simp: manager_run_workflow_def Let_def update_conv')
  then have reg: "map_of (workflow_callbacks m) eid
       = Some \<lparr>on_start = on_start_cb, on_complete = on_complete_cb, on_error = Some Returns\<rparr>"
    using kept by simp
  have ret: "on_error \<lparr>on_start = on_start_cb, on_complete = on_complete_cb,
      on_error = Some Returns\<rparr> = Some Returns"
    by simp
  have "nat (max_retries m + 1 - 0) = nat (max_retries m + 1)"
    by simp
  from retry_loop_all_fail [OF fails reg ret delay this]
  show ?thesis
    unfolding run_workflow_with_retry_def .
qed


theorem retry_invokes_on_error_witness:
  "(\<forall>n r r'. isl (compile_reply failing_client n r) \<or> isl (invoke_reply failing_client (Suc n) r'))
   \<and> manager_run_workflow test_manager (Some ''example-workflow-1'')
        (Some Returns) (Some Returns) (Some Returns) (world_with running_snapshot)
       = (''example-workflow-1'', started_manager)
   \<and> 0 \<le> retry_delay_seconds started_manager
   \<and> (\<exists>w' new errs. run_workflow_with_retry failing_client started_manager
            ''example-workflow-1'' True 3600 True (world_with running_snapshot)
          = Some (Inr (), started_manager, w')
        \<and> trace w' = trace (world_with running_snapshot) @ new
        \<and> filter is_on_error new = map (OnError ''example-workflow-1'' None) errs
        \<and> length errs = 3
        \<and> filter is_on_start new = [] \<and> filter is_on_complete new = [])
   \<and> retry_outcome (run_workflow_with_retry failing_client started_manager
            ''example-workflow-1'' True 3600 True (world_with running_snapshot))
       = Some (Inr (), [],
           [Call (CreateCompilationResultRequest
                ''projects/test-project/locations/us-central1/repositories/test-repo'' ''test''
                [(''defaultExecutionId'', ''example-workflow-1'')] None),
            OnError ''example-workflow-1'' None RemoteUnavailable, Sleep 1,
            Call (CreateCompilationResultRequest
                ''projects/test-project/locations/us-central1/repositories/test-repo'' ''test''
                [(''defaultExecutionId'', ''example-workflow-1'')] None),
            OnError ''example-workflow-1'' None RemoteUnavailable, Sleep 1,
            Call (CreateCompilationResultRequest
                ''projects/test-project/locations/us-central1/repositories/test-repo'' ''test''
                [(''defaultExecutionId'', ''example-workflow-1'')] None),
            OnError ''example-workflow-1'' None RemoteUnavailable])"
proof -
  have fails: "\<forall>n r r'. isl (compile_reply failing_client n r)
      \<or> isl (invoke_reply failing_client (Suc n) r')"
    by (simp add: failing_client_def)
  have submit: "manager_run_workflow test_manager (Some ''example-workflow-1'')
        (Some Returns) (Some Returns) (Some Returns) (world_with running_snapshot)
       = (''example-workflow-1'', started_manager)"
    by (simp add: started_manager_def manager_run_workflow_def Let_def)
  have delay: "0 \<le> retry_delay_seconds started_manager"
    by (simp add: started_manager_def manager_run_workflow_def test_manager_def Let_def)
  have n: "nat (max_retries started_manager + 1) = 3"
    by (simp add: started_manager_def manager_run_workflow_def test_manager_def Let_def)
  have run: "\<exists>w' new errs. run_workflow_with_retry failing_client started_manager
            ''example-workflow-1'' True 3600 True (world_with running_snapshot)
          = Some (Inr (), started_manager, w')
        \<and> trace w' = trace (world_with running_snapshot) @ new
        \<and> filter is_on_error new = map (OnError ''example-workflow-1'' None) errs
        \<and> length errs = 3
        \<and> filter is_on_start new = [] \<and> filter is_on_complete new = []"
    using retry_invokes_on_error [OF fails submit refl delay, of True 3600 True
        "world_with running_snapshot"]
    unfolding n .
  have ev: "retry_outcome (run_workflow_with_retry failing_client started_manager
            ''example-workflow-1'' True 3600 True (world_with running_snapshot))
       = Some (Inr (), [],
           [Call (CreateCompilationResultRequest
                ''projects/test-project/locations/us-central1/repositories/test-repo'' ''test''
                [(''defaultExecutionId'', ''example-workflow-1'')] None),
            OnError ''example-workflow-1'' None RemoteUnavailable, Sleep 1,
            Call (CreateCompilationResultRequest
                ''projects/test-project/locations/us-central1/repositories/test-repo'' ''test''
                [(''defaultExecutionId'', ''example-workflow-1'')] None),
            OnError ''example-workflow-1'' None RemoteUnavailable, Sleep 1,
            Call (CreateCompilationResultRequest
                ''projects/test-project/locations/us-central1/repositories/test-repo'' ''test''
                [(''defaultExecutionId'', ''example-workflow-1'')] None),
            OnError ''example-workflow-1'' None RemoteUnavailable])"
    by (simp add: retry_outcome_def run_workflow_with_retry_def retry_loop.simps try_block_def
      run_workflow_def compile_def create_workflow_def invoke_workflow_def remote_call_def
      called_def new_workflow_def notify_def call_back_def emit_def sleep_def
      wait_for_completion_def wait_loop.simps refresh_def is_complete_def name_def
      compilation_request_def invocation_request_def execution_params_def repo_uri_def
      started_manager_def manager_run_workflow_def test_manager_def test_config_def
      failing_client_def steady_client_def world_with_def running_snapshot_def
      succeeded_snapshot_def terminal_states_def registry_states_def Let_def)
  show ?thesis
    by (rule conjI [OF fails], rule conjI [OF submit], rule conjI [OF delay],
        rule conjI [OF run ev])
qed

text \<open>
  C1 as stated fails. The callback and the sleep between attempts are inside the
  \<^verbatim>\<open>except\<close> block, so what they raise leaves the loop. With \<open>max_retries = 2\<close>, three
  invocations of \<open>on_error\<close> are claimed; an \<open>on_error\<close> that raises is invoked once, and
  so is one that returns when the retry delay is negative (\<^verbatim>\<open>time.sleep\<close> raises
  ValueError). And when the execution id is that of an earlier run still in the
  registry, a pass of the poller that finds this earlier run terminal removes the
  callbacks just stored, and the loop then invokes \<open>on_error\<close> not once in its three
  attempts.
\<close>

theorem on_error_once_counterexample:
  "max_retries test_manager + 1 = 3
   \<and> retry_outcome (run_workflow_with_retry failing_client
        (snd (manager_run_workflow test_manager (Some ''example-workflow-1'')
               (Some Returns) (Some Returns) (Some (Raises ValueError))
               (world_with running_snapshot)))
        ''example-workflow-1'' True 3600 True (world_with running_snapshot))
     = Some (Inl ValueError, [],
         [Call (CreateCompilationResultRequest
              ''projects/test-project/locations/us-central1/repositories/test-repo'' ''test''
              [(''defaultExecutionId'', ''example-workflow-1'')] None),
          OnError ''example-workflow-1'' None RemoteUnavailable])
   \<and> retry_outcome (run_workflow_with_retry failing_client
        (started_manager\<lparr>retry_delay_seconds := - 1\<rparr>)
        ''example-workflow-1'' True 3600 True (world_with running_snapshot))
     = Some (Inl ValueError, [],
         [Call (CreateCompilationResultRequest
              ''projects/test-project/locations/us-central1/repositories/test-repo'' ''test''
              [(''defaultExecutionId'', ''example-workflow-1'')] None),
          OnError ''example-workflow-1'' None RemoteUnavailable])
   \<and> retry_outcome
        (case monitor_pass (failing_client\<lparr>get_reply := (\<lambda>n r. Inr succeeded_snapshot)\<rparr>)
                (snd (manager_run_workflow
                        (test_manager\<lparr>active_workflows := [(''example-workflow-1'', 0)]\<rparr>)
                        (Some ''example-workflow-1'') (Some Returns) (Some Returns) (Some Returns)
                        (world_with running_snapshot)))
                (world_with running_snapshot) of
           (m, w) \<Rightarrow>
             run_workflow_with_retry
               (failing_client\<lparr>get_reply := (\<lambda>n r. Inr succeeded_snapshot)\<rparr>) m
               ''example-workflow-1'' True 3600 True w)
     = Some (Inr (), [],
         [Acquire,
          Call (GetWorkflowInvocation ''inv-1''), Call (GetWorkflowInvocation ''inv-1''),
          OnComplete ''example-workflow-1'' 0, Evict ''example-workflow-1'', Release,
          Call (CreateCompilationResultRequest
              ''projects/test-project/locations/us-central1/repositories/test-repo'' ''test''
              [(''defaultExecutionId'', ''example-workflow-1'')] None),
          Sleep 1,
          Call (CreateCompilationResultRequest
              ''projects/test-project/locations/us-central1/repositories/test-repo'' ''test''
              [(''defaultExecutionId'', ''example-workflow-1'')] None),
          Sleep 1,
          Call (CreateCompilationResultRequest
              ''projects/test-project/locations/us-central1/repositories/test-repo'' ''test''
              [(''defaultExecutionId'', ''example-workflow-1'')] None)])"
  by (simp add: monitor_pass_def monitor_entry_def remove_completed_def retry_outcome_def run_workflow_with_retry_def retry_loop.simps try_block_def
      run_workflow_def compile_def create_workflow_def invoke_workflow_def remote_call_def
      called_def new_workflow_def notify_def call_back_def emit_def sleep_def
      wait_for_completion_def wait_loop.simps refresh_def is_complete_def name_def
      compilation_request_def invocation_request_def execution_params_def repo_uri_def
      started_manager_def manager_run_workflow_def test_manager_def test_config_def
      failing_client_def steady_client_def world_with_def running_snapshot_def
      succeeded_snapshot_def terminal_states_def registry_states_def Let_def)

section \<open>One attempt of the retry loop\<close>








end
